theory Spec2Isabelle
  imports Main
begin

section \<open>Peer registry and name arbitration of the p2p host\<close>

text \<open>
  The embedding follows \<^verbatim>\<open>internal/p2p\<close> (the \<^verbatim>\<open>Host\<close> type with its
  peer table, name table, stream handling and broadcast) and the message dispatch of the
  agent that is installed as the host's handler.

  Identities. \<^verbatim>\<open>peer.ID\<close> is libp2p's identity type; the code compares identities
  with \<^verbatim>\<open>!=\<close>, uses them as map keys and prints them with \<^verbatim>\<open>String()\<close>.
  An identity is represented here by the text \<^verbatim>\<open>String()\<close> returns for it, which
  determines it; the zero identity \<^verbatim>\<open>""\<close> is the empty text. The identities libp2p
  derives from public keys print as 46 or 52 characters.
\<close>

type_synonym peer_id = string
type_synonym bytes = string

text \<open>A Go \<^verbatim>\<open>error\<close> value is its message; \<^verbatim>\<open>nil\<close> is \<open>None\<close>.\<close>

type_synonym error = string

text \<open>A call either returns a value or panics (a slice expression out of range).\<close>

datatype 'a go_result = Returns 'a | Panics

subsection \<open>State\<close>

text \<open>
  \<^verbatim>\<open>PeerInfo\<close>: \<^verbatim>\<open>Addrs\<close> holds multiaddresses, kept as their text.
\<close>

record PeerInfo =
  ID :: peer_id
  Name :: string
  Addrs :: "string list"
  Connected :: bool

text \<open>
  The registry part of \<^verbatim>\<open>Host\<close>. \<^verbatim>\<open>peers\<close> is a
  \<^verbatim>\<open>map[peer.ID]*PeerInfo\<close>: its values are pointers, so the table is kept as the
  list of its keys with the address of each entry, and the entries themselves live in
  \<open>objects\<close>, where an address is an index. A new entry is allocated at the end of
  \<open>objects\<close>. Go leaves the iteration order of a map open; the list fixes one order
  (insertion order), and no statement below depends on it. \<^verbatim>\<open>agentNames\<close> is a
  \<^verbatim>\<open>map[string]peer.ID\<close> that is only read and written by key.
  The lock \<^verbatim>\<open>peersMu\<close> makes each operation below atomic; an operation is
  therefore one function from state to state.
\<close>

record Host =
  localName :: string
  peers :: "(peer_id \<times> nat) list"
  objects :: "PeerInfo list"
  agentNames :: "string \<rightharpoonup> peer_id"

text \<open>\<^verbatim>\<open>NewHost\<close> starts with both tables empty.\<close>

definition NewHost :: Host where
  "NewHost = \<lparr>localName = [], peers = [], objects = [], agentNames = Map.empty\<rparr>"

definition SetLocalName :: "Host \<Rightarrow> string \<Rightarrow> Host" where
  "SetLocalName h name = h\<lparr>localName := name\<rparr>"

subsection \<open>Name arbitration\<close>

text \<open>
  The message of the conflict error,
  \<^verbatim>\<open>fmt.Errorf("agent name '%s' is already taken by peer %s", name, existingPeer.String()[:12])\<close>.
\<close>

definition name_conflict_error :: "string \<Rightarrow> string \<Rightarrow> error" where
  "name_conflict_error name shown =
     ''agent name '' @ [CHR 0x27] @ name @ [CHR 0x27] @ '' is already taken by peer '' @ shown"

text \<open>
  \<^verbatim>\<open>RegisterAgentName\<close>. The slice \<^verbatim>\<open>existingPeer.String()[:12]\<close> panics when
  the text is shorter than 12 bytes; the deferred unlock runs and the tables are as they
  were.
\<close>

definition RegisterAgentName :: "Host \<Rightarrow> string \<Rightarrow> peer_id \<Rightarrow> error option go_result \<times> Host" where
  "RegisterAgentName h name peerID =
     (case agentNames h name of
        Some existingPeer \<Rightarrow>
          if existingPeer \<noteq> peerID then
            (if length existingPeer < 12 then (Panics, h)
             else (Returns (Some (name_conflict_error name (take 12 existingPeer))), h))
          else (Returns None, h\<lparr>agentNames := (agentNames h)(name \<mapsto> peerID)\<rparr>)
      | None \<Rightarrow> (Returns None, h\<lparr>agentNames := (agentNames h)(name \<mapsto> peerID)\<rparr>))"

definition IsNameTaken :: "Host \<Rightarrow> string \<Rightarrow> bool \<times> peer_id" where
  "IsNameTaken h name =
     (case agentNames h name of
        Some peerID \<Rightarrow> (True, peerID)
      | None \<Rightarrow> (False, []))"

subsection \<open>Connection lifecycle\<close>

text \<open>
  \<^verbatim>\<open>onPeerConnected\<close> allocates an entry for an identity it has not seen and sets
  the flag of the existing entry otherwise; \<^verbatim>\<open>onPeerDisconnected\<close> clears the flag
  of a known identity through the pointer and does nothing else.
\<close>

definition onPeerConnected :: "Host \<Rightarrow> peer_id \<Rightarrow> Host" where
  "onPeerConnected h peerID =
     (case map_of (peers h) peerID of
        None \<Rightarrow>
          h\<lparr>peers := peers h @ [(peerID, length (objects h))],
            objects := objects h @ [\<lparr>ID = peerID, Name = [], Addrs = [], Connected = True\<rparr>]\<rparr>
      | Some a \<Rightarrow> h\<lparr>objects := (objects h)[a := (objects h ! a)\<lparr>Connected := True\<rparr>]\<rparr>)"

definition onPeerDisconnected :: "Host \<Rightarrow> peer_id \<Rightarrow> Host" where
  "onPeerDisconnected h peerID =
     (case map_of (peers h) peerID of
        Some p \<Rightarrow> h\<lparr>objects := (objects h)[p := (objects h ! p)\<lparr>Connected := False\<rparr>]\<rparr>
      | None \<Rightarrow> h)"

text \<open>
  \<^verbatim>\<open>GetPeers\<close> copies the pointers of all entries into a fresh slice.
\<close>

definition GetPeers :: "Host \<Rightarrow> nat list" where
  "GetPeers h = map snd (peers h)"

text \<open>
  The first half of \<^verbatim>\<open>Broadcast\<close>, under the read lock: the identities of the
  entries whose flag is set, copied into a fresh slice of identities.
\<close>

definition connectedPeers :: "Host \<Rightarrow> peer_id list" where
  "connectedPeers h = map fst (filter (\<lambda>(pid, info). Connected (objects h ! info)) (peers h))"

text \<open>
  What the heap guarantees and the list representation has to state: the keys of the
  table are distinct, no two keys share an entry, and every pointer addresses an allocated
  entry. \<^verbatim>\<open>NewHost\<close> establishes it and every operation keeps it.
\<close>

definition host_inv :: "Host \<Rightarrow> bool" where
  "host_inv h \<longleftrightarrow>
     distinct (map fst (peers h)) \<and> distinct (map snd (peers h)) \<and>
     list_all (\<lambda>(pid, a). a < length (objects h) \<and> ID (objects h ! a) = pid) (peers h)"

text \<open>Reading \<^verbatim>\<open>*h.peers[peerID]\<close>: the entry behind the pointer, if the key is there.\<close>

definition peer_entry :: "Host \<Rightarrow> peer_id \<Rightarrow> PeerInfo option" where
  "peer_entry h peerID = map_option (\<lambda>a. objects h ! a) (map_of (peers h) peerID)"

text \<open>
  The operations that write the registry, as one step function; the readers
  (\<^verbatim>\<open>IsNameTaken\<close>, \<^verbatim>\<open>GetPeers\<close>, the snapshot of \<^verbatim>\<open>Broadcast\<close>)
  leave it as it is.
\<close>

datatype registry_op =
    OpRegisterAgentName string peer_id
  | OpPeerConnected peer_id
  | OpPeerDisconnected peer_id
  | OpSetLocalName string

fun registry_step :: "Host \<Rightarrow> registry_op \<Rightarrow> Host" where
  "registry_step h (OpRegisterAgentName name peerID) = snd (RegisterAgentName h name peerID)"
| "registry_step h (OpPeerConnected peerID) = onPeerConnected h peerID"
| "registry_step h (OpPeerDisconnected peerID) = onPeerDisconnected h peerID"
| "registry_step h (OpSetLocalName name) = SetLocalName h name"

section \<open>Messages, streams and broadcast\<close>

subsection \<open>The envelope\<close>

definition MessageTypePing :: string where "MessageTypePing = ''ping''"
definition MessageTypeAnnounce :: string where "MessageTypeAnnounce = ''announce''"


text \<open>
  \<^verbatim>\<open>Message\<close>. \<^verbatim>\<open>Payload\<close> is a \<^verbatim>\<open>json.RawMessage\<close>, a byte slice:
  \<open>None\<close> is the nil slice of a message built without a payload.
\<close>

record Message =
  Type :: string
  From :: string
  To :: string
  RequestID :: string
  Payload :: "bytes option"

record RegisterPayload =
  AgentName :: string
  Endpoint :: string
  Models :: "string list"



subsection \<open>What lies outside the repository\<close>

text \<open>
  A libp2p stream, as \<^verbatim>\<open>SendMessage\<close> uses it: \<open>Write\<close> is the result of
  \<^verbatim>\<open>s.Write(data)\<close>, and \<open>ReadAll\<close> is what \<^verbatim>\<open>io.ReadAll\<close> returns once
  \<open>data\<close> has been written and the write side closed (the remote side decides it).
\<close>

record stream =
  Write :: "bytes \<Rightarrow> error option"
  ReadAll :: "bytes \<Rightarrow> error + bytes"

text \<open>
  The libp2p host behind \<^verbatim>\<open>h.host\<close>: its own identity and
  \<^verbatim>\<open>NewStream(ctx, peerID, ProtocolID)\<close>. A cancelled context shows as the failure
  of the call that observes it.
\<close>

record libp2p =
  hostID :: peer_id
  NewStream :: "peer_id \<Rightarrow> string \<Rightarrow> error + stream"

definition ProtocolID :: string where
  "ProtocolID = ''/p2p-agent/1.0.0''"

text \<open>
  The calls into \<^verbatim>\<open>encoding/json\<close> and the HTTP exchange with the completion
  service. They are Go's standard library and a remote service, not code of the
  repository, and enter as parameters: \<open>jsonMarshal\<close> and \<open>jsonUnmarshal\<close> are
  \<^verbatim>\<open>json.Marshal\<close> of a \<^verbatim>\<open>*Message\<close> and \<^verbatim>\<open>json.Unmarshal\<close> into
  a zero \<^verbatim>\<open>Message\<close>; the others decode a payload into the type the handler wants
  (\<open>unmarshalAnnounce\<close> only says whether it decodes, the result is logged and dropped)
  or encode a reply payload, where the code drops the error and keeps the bytes.
\<close>

record ('req, 'resp) external =
  jsonMarshal :: "Message \<Rightarrow> error + bytes"
  jsonUnmarshal :: "bytes \<Rightarrow> error + Message"
  unmarshalRegister :: "bytes option \<Rightarrow> error + RegisterPayload"
  unmarshalAnnounce :: "bytes option \<Rightarrow> error option"
  unmarshalChat :: "bytes option \<Rightarrow> error + 'req"
  marshalError :: "error \<Rightarrow> bytes option"
  marshalChat :: "'resp \<Rightarrow> bytes option"
  forwardToOpenAI :: "'req \<Rightarrow> error + 'resp"

text \<open>Log lines: the level and the message (the fields are left out).\<close>

datatype level = Debug | Info | Warn | Error

type_synonym log = "(level \<times> string) list"

subsection \<open>Request and response over one stream\<close>

text \<open>
  \<^verbatim>\<open>SendMessage\<close>. The result is the pair the Go function returns; beside it stands
  what the call put on the wire: the data of a \<^verbatim>\<open>Write\<close> that returned no error.
\<close>

definition SendMessage ::
  "('req, 'resp) external \<Rightarrow> libp2p \<Rightarrow> peer_id \<Rightarrow> Message
     \<Rightarrow> (Message option \<times> error option) \<times> bytes list"
where
  "SendMessage ext net peerID msg =
     (case NewStream net peerID ProtocolID of
        Inl err \<Rightarrow> ((None, Some (''failed to open stream: '' @ err)), [])
      | Inr s \<Rightarrow>
          (case jsonMarshal ext msg of
             Inl err \<Rightarrow> ((None, Some (''failed to marshal message: '' @ err)), [])
           | Inr data \<Rightarrow>
               (case Write s data of
                  Some err \<Rightarrow> ((None, Some (''failed to write message: '' @ err)), [])
                | None \<Rightarrow>
                    (case ReadAll s data of
                       Inl err \<Rightarrow> ((None, Some (''failed to read response: '' @ err)), [data])
                     | Inr respData \<Rightarrow>
                         if length respData = 0 then ((None, None), [data])
                         else
                           (case jsonUnmarshal ext respData of
                              Inl err \<Rightarrow>
                                ((None, Some (''failed to unmarshal response: '' @ err)), [data])
                            | Inr response \<Rightarrow> ((Some response, None), [data]))))))"

subsection \<open>Broadcast\<close>

text \<open>
  \<^verbatim>\<open>Broadcast\<close> takes the snapshot, starts one goroutine for each identity in it and
  returns \<^verbatim>\<open>nil\<close>. The second component lists the goroutines started, each by the
  arguments of its \<^verbatim>\<open>SendMessage\<close> call. The goroutines share nothing but the
  message, which none of them writes, so each is described by its own run:
  \<open>broadcast_goroutine\<close> is the body, giving what it put on the wire and what it logged.
\<close>

definition Broadcast :: "Host \<Rightarrow> Message \<Rightarrow> error option \<times> (peer_id \<times> Message) list" where
  "Broadcast h msg = (None, map (\<lambda>peerID. (peerID, msg)) (connectedPeers h))"

definition broadcast_goroutine ::
  "('req, 'resp) external \<Rightarrow> libp2p \<Rightarrow> peer_id \<times> Message \<Rightarrow> bytes list \<times> log"
where
  "broadcast_goroutine ext net call =
     (case SendMessage ext net (fst call) (snd call) of
        ((_, Some err), wire) \<Rightarrow> (wire, [(Debug, ''Failed to broadcast to peer'')])
      | ((_, None), wire) \<Rightarrow> (wire, []))"

text \<open>What a whole broadcast puts on the wire towards one peer.\<close>

definition broadcast_wire ::
  "('req, 'resp) external \<Rightarrow> libp2p \<Rightarrow> Host \<Rightarrow> Message \<Rightarrow> peer_id \<Rightarrow> bytes list"
where
  "broadcast_wire ext net h msg peerID =
     concat (map (\<lambda>call. fst (broadcast_goroutine ext net call))
       (filter (\<lambda>call. fst call = peerID) (snd (Broadcast h msg))))"


subsection \<open>The agent's handler and the inbound stream\<close>









section \<open>Properties\<close>

subsection \<open>The representation invariant\<close>

lemma host_inv_NewHost: "host_inv NewHost"
  by (simp add: host_inv_def NewHost_def)

lemma inv_lookup:
  assumes "host_inv h" and "map_of (peers h) p = Some a"
  shows "a < length (objects h)" and "ID (objects h ! a) = p"
proof -
  from assms(2) have "(p, a) \<in> set (peers h)" by (rule map_of_SomeD)
  with assms(1) show "a < length (objects h)" and "ID (objects h ! a) = p"
    by (auto simp: host_inv_def list_all_iff)
qed

lemma distinct_snd_key:
  "distinct (map snd xs) \<Longrightarrow> (p, a) \<in> set xs \<Longrightarrow> (q, a) \<in> set xs \<Longrightarrow> p = q"
  by (induction xs) (auto simp: image_iff)

lemma inv_lookup_inj:
  assumes "host_inv h" and "map_of (peers h) p = Some a" and "map_of (peers h) q = Some a"
  shows "p = q"
  using assms distinct_snd_key [of "peers h" p a q]
  by (auto simp: host_inv_def dest!: map_of_SomeD)

lemma ID_update_flag:
  "b < length xs \<Longrightarrow> ID (xs[a := (xs ! a)\<lparr>Connected := c\<rparr>] ! b) = ID (xs ! b)"
  by (cases "a = b") simp_all

lemma host_inv_set_flag:
  assumes "host_inv h"
  shows "host_inv (h\<lparr>objects := (objects h)[a := (objects h ! a)\<lparr>Connected := c\<rparr>]\<rparr>)"
  using assms by (auto simp: host_inv_def list_all_iff ID_update_flag)

lemma host_inv_onPeerConnected: "host_inv h \<Longrightarrow> host_inv (onPeerConnected h p)"
proof (cases "map_of (peers h) p")
  case None
  assume inv: "host_inv h"
  from None have "p \<notin> fst ` set (peers h)" by (simp add: map_of_eq_None_iff)
  moreover from inv have "\<forall>a \<in> snd ` set (peers h). a < length (objects h)"
    by (auto simp: host_inv_def list_all_iff)
  ultimately show ?thesis using inv None
    by (auto simp: host_inv_def onPeerConnected_def list_all_iff nth_append)
next
  case (Some a)
  assume inv: "host_inv h"
  then show ?thesis using Some
    by (simp add: onPeerConnected_def host_inv_set_flag)
qed

lemma host_inv_onPeerDisconnected: "host_inv h \<Longrightarrow> host_inv (onPeerDisconnected h p)"
  by (cases "map_of (peers h) p") (simp_all add: onPeerDisconnected_def host_inv_set_flag)

lemma host_inv_RegisterAgentName: "host_inv h \<Longrightarrow> host_inv (snd (RegisterAgentName h n p))"
  by (auto simp: host_inv_def RegisterAgentName_def split: option.splits)

lemma host_inv_registry_step: "host_inv h \<Longrightarrow> host_inv (registry_step h x)"
  by (cases x) (simp_all add: host_inv_onPeerConnected host_inv_onPeerDisconnected
      host_inv_RegisterAgentName, simp add: host_inv_def SetLocalName_def)

lemma host_inv_foldl: "host_inv h \<Longrightarrow> host_inv (foldl registry_step h xs)"
  by (induction xs arbitrary: h) (simp_all add: host_inv_registry_step)

subsection \<open>Entries under connect and disconnect\<close>

lemma peer_entry_set_flag:
  assumes "host_inv h" and "map_of (peers h) p = Some a"
  shows "peer_entry (h\<lparr>objects := (objects h)[a := (objects h ! a)\<lparr>Connected := c\<rparr>]\<rparr>) q
    = (if q = p then map_option (\<lambda>i. i\<lparr>Connected := c\<rparr>) (peer_entry h p) else peer_entry h q)"
proof (cases "q = p")
  case True
  with assms inv_lookup(1) [OF assms] show ?thesis
    by (simp add: peer_entry_def)
next
  case False
  show ?thesis
  proof (cases "map_of (peers h) q")
    case None
    with False show ?thesis by (simp add: peer_entry_def)
  next
    case (Some b)
    with False assms have "b \<noteq> a" using inv_lookup_inj by blast
    with False Some show ?thesis by (simp add: peer_entry_def)
  qed
qed

lemma peer_entry_onPeerDisconnected:
  assumes "host_inv h"
  shows "peer_entry (onPeerDisconnected h p) q
    = (if q = p then map_option (\<lambda>i. i\<lparr>Connected := False\<rparr>) (peer_entry h p) else peer_entry h q)"
proof (cases "map_of (peers h) p")
  case None
  then show ?thesis by (simp add: onPeerDisconnected_def peer_entry_def)
next
  case (Some a)
  then show ?thesis
    using peer_entry_set_flag [OF assms Some] by (simp add: onPeerDisconnected_def)
qed

lemma peer_entry_onPeerConnected_known:
  assumes "host_inv h" and "map_of (peers h) p = Some a"
  shows "peer_entry (onPeerConnected h p) q
    = (if q = p then map_option (\<lambda>i. i\<lparr>Connected := True\<rparr>) (peer_entry h p) else peer_entry h q)"
  using peer_entry_set_flag [OF assms] assms(2) by (simp add: onPeerConnected_def)

lemma peer_entry_onPeerConnected_new:
  assumes "host_inv h" and "map_of (peers h) p = None"
  shows "peer_entry (onPeerConnected h p) q
    = (if q = p then Some \<lparr>ID = p, Name = [], Addrs = [], Connected = True\<rparr> else peer_entry h q)"
proof (cases "map_of (peers h) q")
  case None
  with assms show ?thesis
    by (simp add: onPeerConnected_def peer_entry_def map_add_def)
next
  case (Some b)
  with assms inv_lookup(1) [OF assms(1) Some] show ?thesis
    by (auto simp: onPeerConnected_def peer_entry_def map_add_def nth_append)
qed

lemma onPeerConnected_twice: "onPeerConnected (onPeerConnected h p) p = onPeerConnected h p"
proof (cases "map_of (peers h) p")
  case None
  then show ?thesis
    by (simp add: onPeerConnected_def map_add_def)
next
  case (Some a)
  then show ?thesis
    by (cases "a < length (objects h)") (simp_all add: onPeerConnected_def list_update_beyond)
qed

lemma onPeerDisconnected_twice:
  "onPeerDisconnected (onPeerDisconnected h p) p = onPeerDisconnected h p"
proof (cases "map_of (peers h) p")
  case None
  then show ?thesis
    by (simp add: onPeerDisconnected_def)
next
  case (Some a)
  then show ?thesis
    by (cases "a < length (objects h)") (simp_all add: onPeerDisconnected_def list_update_beyond)
qed

subsection \<open>Name arbitration\<close>

text \<open>
  C1. Claiming an unclaimed name succeeds and records the claimant as owner; the same
  identity claiming it again succeeds and leaves the state as it is; a different identity
  is refused with the conflict error, and the owner stays. The owner's identity is a
  libp2p identity, whose text has at least 12 characters.
\<close>

theorem claimName_first_wins:
  assumes "agentNames h n = None" and "P2 \<noteq> P1" and "12 \<le> length P1"
  shows "RegisterAgentName h n P1 = (Returns None, h\<lparr>agentNames := (agentNames h)(n \<mapsto> P1)\<rparr>)
    \<and> RegisterAgentName (snd (RegisterAgentName h n P1)) n P1
        = (Returns None, snd (RegisterAgentName h n P1))
    \<and> RegisterAgentName (snd (RegisterAgentName h n P1)) n P2
        = (Returns (Some (name_conflict_error n (take 12 P1))), snd (RegisterAgentName h n P1))
    \<and> agentNames (snd (RegisterAgentName (snd (RegisterAgentName h n P1)) n P2)) n = Some P1"
  using assms by (simp add: RegisterAgentName_def)

theorem claimName_first_wins_witness:
  "agentNames NewHost ''alice'' = None
   \<and> ''QmcZf59bWwK5XFi76CZX8cbJ4BhTzzA3gU1ZjYZcYW3dwt'' \<noteq> ''QmYyQSo1c1Ym7orWxLYvCrM2EmxFTANf8wXmmE7DWjhx5N''
   \<and> 12 \<le> length ''QmYyQSo1c1Ym7orWxLYvCrM2EmxFTANf8wXmmE7DWjhx5N''
   \<and> fst (RegisterAgentName NewHost ''alice'' ''QmYyQSo1c1Ym7orWxLYvCrM2EmxFTANf8wXmmE7DWjhx5N'')
       = Returns None
   \<and> fst (RegisterAgentName
        (snd (RegisterAgentName NewHost ''alice'' ''QmYyQSo1c1Ym7orWxLYvCrM2EmxFTANf8wXmmE7DWjhx5N''))
        ''alice'' ''QmcZf59bWwK5XFi76CZX8cbJ4BhTzzA3gU1ZjYZcYW3dwt'')
       = Returns (Some (name_conflict_error ''alice'' ''QmYyQSo1c1Ym''))"
proof -
  have a: "agentNames NewHost ''alice'' = None"
    by (simp add: NewHost_def)
  have b: "''QmcZf59bWwK5XFi76CZX8cbJ4BhTzzA3gU1ZjYZcYW3dwt'' \<noteq> ''QmYyQSo1c1Ym7orWxLYvCrM2EmxFTANf8wXmmE7DWjhx5N''"
    by simp
  have c: "12 \<le> length ''QmYyQSo1c1Ym7orWxLYvCrM2EmxFTANf8wXmmE7DWjhx5N''"
    by simp
  have t: "take 12 ''QmYyQSo1c1Ym7orWxLYvCrM2EmxFTANf8wXmmE7DWjhx5N'' = ''QmYyQSo1c1Ym''"
    by simp
  note th = claimName_first_wins [OF a b c, unfolded t]
  show ?thesis
    using a b c th by (metis fst_conv)
qed

text \<open>
  C5. Disconnecting the owner of a name keeps its entry (only the flag is cleared) and
  its claim: the name is still reported taken by it, and another identity is still refused.
\<close>

theorem disconnect_keeps_entry_and_claim:
  assumes "host_inv h" and "agentNames h n = Some P1" and "P2 \<noteq> P1" and "12 \<le> length P1"
  shows "peers (onPeerDisconnected h P1) = peers h
    \<and> peer_entry (onPeerDisconnected h P1) P1
        = map_option (\<lambda>i. i\<lparr>Connected := False\<rparr>) (peer_entry h P1)
    \<and> agentNames (onPeerDisconnected h P1) = agentNames h
    \<and> IsNameTaken (onPeerDisconnected h P1) n = (True, P1)
    \<and> RegisterAgentName (onPeerDisconnected h P1) n P2
        = (Returns (Some (name_conflict_error n (take 12 P1))), onPeerDisconnected h P1)"
proof -
  have p: "peers (onPeerDisconnected h P1) = peers h"
    by (simp add: onPeerDisconnected_def split: option.split)
  have a: "agentNames (onPeerDisconnected h P1) = agentNames h"
    by (simp add: onPeerDisconnected_def split: option.split)
  have e: "peer_entry (onPeerDisconnected h P1) P1
        = map_option (\<lambda>i. i\<lparr>Connected := False\<rparr>) (peer_entry h P1)"
    using peer_entry_onPeerDisconnected [OF assms(1), of P1 P1] by simp
  from a assms(2) have t: "IsNameTaken (onPeerDisconnected h P1) n = (True, P1)"
    by (simp add: IsNameTaken_def)
  from a assms(2,3,4) have r: "RegisterAgentName (onPeerDisconnected h P1) n P2
        = (Returns (Some (name_conflict_error n (take 12 P1))), onPeerDisconnected h P1)"
    by (auto simp: RegisterAgentName_def)
  from p a e t r show ?thesis by blast
qed

theorem disconnect_keeps_entry_and_claim_witness:
  "peer_entry
     (onPeerDisconnected
        (snd (RegisterAgentName
           (onPeerConnected NewHost ''QmYyQSo1c1Ym7orWxLYvCrM2EmxFTANf8wXmmE7DWjhx5N'')
           ''alice'' ''QmYyQSo1c1Ym7orWxLYvCrM2EmxFTANf8wXmmE7DWjhx5N''))
        ''QmYyQSo1c1Ym7orWxLYvCrM2EmxFTANf8wXmmE7DWjhx5N'')
     ''QmYyQSo1c1Ym7orWxLYvCrM2EmxFTANf8wXmmE7DWjhx5N''
    = Some \<lparr>ID = ''QmYyQSo1c1Ym7orWxLYvCrM2EmxFTANf8wXmmE7DWjhx5N'', Name = [], Addrs = [],
        Connected = False\<rparr>
   \<and> IsNameTaken
     (onPeerDisconnected
        (snd (RegisterAgentName
           (onPeerConnected NewHost ''QmYyQSo1c1Ym7orWxLYvCrM2EmxFTANf8wXmmE7DWjhx5N'')
           ''alice'' ''QmYyQSo1c1Ym7orWxLYvCrM2EmxFTANf8wXmmE7DWjhx5N''))
        ''QmYyQSo1c1Ym7orWxLYvCrM2EmxFTANf8wXmmE7DWjhx5N'')
     ''alice''
    = (True, ''QmYyQSo1c1Ym7orWxLYvCrM2EmxFTANf8wXmmE7DWjhx5N'')
   \<and> fst (RegisterAgentName
     (onPeerDisconnected
        (snd (RegisterAgentName
           (onPeerConnected NewHost ''QmYyQSo1c1Ym7orWxLYvCrM2EmxFTANf8wXmmE7DWjhx5N'')
           ''alice'' ''QmYyQSo1c1Ym7orWxLYvCrM2EmxFTANf8wXmmE7DWjhx5N''))
        ''QmYyQSo1c1Ym7orWxLYvCrM2EmxFTANf8wXmmE7DWjhx5N'')
     ''alice'' ''QmcZf59bWwK5XFi76CZX8cbJ4BhTzzA3gU1ZjYZcYW3dwt'')
    = Returns (Some (name_conflict_error ''alice'' ''QmYyQSo1c1Ym''))"
proof -
  let ?P1 = "''QmYyQSo1c1Ym7orWxLYvCrM2EmxFTANf8wXmmE7DWjhx5N''"
  let ?P2 = "''QmcZf59bWwK5XFi76CZX8cbJ4BhTzzA3gU1ZjYZcYW3dwt''"
  let ?h = "snd (RegisterAgentName (onPeerConnected NewHost ?P1) ''alice'' ?P1)"
  have i: "host_inv ?h"
    by (intro host_inv_RegisterAgentName host_inv_onPeerConnected host_inv_NewHost)
  have a: "agentNames ?h ''alice'' = Some ?P1"
    by (simp add: RegisterAgentName_def onPeerConnected_def NewHost_def)
  have b: "?P2 \<noteq> ?P1" by simp
  have c: "12 \<le> length ?P1" by simp
  have t: "take 12 ?P1 = ''QmYyQSo1c1Ym''" by simp
  have e: "peer_entry ?h ?P1 = Some \<lparr>ID = ?P1, Name = [], Addrs = [], Connected = True\<rparr>"
    by (simp add: peer_entry_def RegisterAgentName_def onPeerConnected_def NewHost_def)
  note th = disconnect_keeps_entry_and_claim [OF i a b c, unfolded t e]
  from th show ?thesis by simp
qed

subsection \<open>Connect and disconnect\<close>

text \<open>
  C8. Connecting twice is the same as connecting once, and so is disconnecting; connecting
  an identity that is already known changes nothing but the flag of its entry, which
  becomes true (the tables, the other fields of the entry and every other entry stay);
  disconnecting an identity that is not in the table changes nothing and creates no entry.
\<close>

theorem connect_disconnect_idempotent:
  "onPeerConnected (onPeerConnected h P) P = onPeerConnected h P
   \<and> onPeerDisconnected (onPeerDisconnected h P) P = onPeerDisconnected h P
   \<and> (host_inv h \<and> peer_entry h P = Some e \<longrightarrow>
        peers (onPeerConnected h P) = peers h
        \<and> agentNames (onPeerConnected h P) = agentNames h
        \<and> localName (onPeerConnected h P) = localName h
        \<and> length (objects (onPeerConnected h P)) = length (objects h)
        \<and> peer_entry (onPeerConnected h P) P = Some (e\<lparr>Connected := True\<rparr>)
        \<and> (\<forall>Q. Q \<noteq> P \<longrightarrow> peer_entry (onPeerConnected h P) Q = peer_entry h Q))
   \<and> (map_of (peers h) P = None \<longrightarrow>
        onPeerDisconnected h P = h \<and> peer_entry (onPeerDisconnected h P) P = None)"
proof -
  have known: "peers (onPeerConnected h P) = peers h
        \<and> agentNames (onPeerConnected h P) = agentNames h
        \<and> localName (onPeerConnected h P) = localName h
        \<and> length (objects (onPeerConnected h P)) = length (objects h)
        \<and> peer_entry (onPeerConnected h P) P = Some (e\<lparr>Connected := True\<rparr>)
        \<and> (\<forall>Q. Q \<noteq> P \<longrightarrow> peer_entry (onPeerConnected h P) Q = peer_entry h Q)"
    if inv: "host_inv h" and e: "peer_entry h P = Some e"
  proof -
    from e obtain a where a: "map_of (peers h) P = Some a"
      by (auto simp: peer_entry_def)
    from a have frame: "peers (onPeerConnected h P) = peers h"
      "agentNames (onPeerConnected h P) = agentNames h"
      "localName (onPeerConnected h P) = localName h"
      "length (objects (onPeerConnected h P)) = length (objects h)"
      by (simp_all add: onPeerConnected_def)
    from peer_entry_onPeerConnected_known [OF inv a] e
    have "peer_entry (onPeerConnected h P) P = Some (e\<lparr>Connected := True\<rparr>)"
      and "\<forall>Q. Q \<noteq> P \<longrightarrow> peer_entry (onPeerConnected h P) Q = peer_entry h Q"
      by simp_all
    with frame show ?thesis by blast
  qed
  have unknown: "onPeerDisconnected h P = h \<and> peer_entry (onPeerDisconnected h P) P = None"
    if "map_of (peers h) P = None"
    using that by (simp add: onPeerDisconnected_def peer_entry_def)
  from known unknown onPeerConnected_twice [of h P] onPeerDisconnected_twice [of h P]
  show ?thesis by blast
qed

theorem connect_disconnect_idempotent_witness:
  "host_inv (onPeerDisconnected (onPeerConnected NewHost ''QmYyQSo1c1Ym7orWxLYvCrM2EmxFTANf8wXmmE7DWjhx5N'')
       ''QmYyQSo1c1Ym7orWxLYvCrM2EmxFTANf8wXmmE7DWjhx5N'')
   \<and> peer_entry
      (onPeerDisconnected (onPeerConnected NewHost ''QmYyQSo1c1Ym7orWxLYvCrM2EmxFTANf8wXmmE7DWjhx5N'')
         ''QmYyQSo1c1Ym7orWxLYvCrM2EmxFTANf8wXmmE7DWjhx5N'')
      ''QmYyQSo1c1Ym7orWxLYvCrM2EmxFTANf8wXmmE7DWjhx5N''
     = Some \<lparr>ID = ''QmYyQSo1c1Ym7orWxLYvCrM2EmxFTANf8wXmmE7DWjhx5N'', Name = [], Addrs = [],
         Connected = False\<rparr>
   \<and> peer_entry
      (onPeerConnected
        (onPeerDisconnected (onPeerConnected NewHost ''QmYyQSo1c1Ym7orWxLYvCrM2EmxFTANf8wXmmE7DWjhx5N'')
           ''QmYyQSo1c1Ym7orWxLYvCrM2EmxFTANf8wXmmE7DWjhx5N'')
        ''QmYyQSo1c1Ym7orWxLYvCrM2EmxFTANf8wXmmE7DWjhx5N'')
      ''QmYyQSo1c1Ym7orWxLYvCrM2EmxFTANf8wXmmE7DWjhx5N''
     = Some \<lparr>ID = ''QmYyQSo1c1Ym7orWxLYvCrM2EmxFTANf8wXmmE7DWjhx5N'', Name = [], Addrs = [],
         Connected = True\<rparr>
   \<and> map_of (peers NewHost) ''QmcZf59bWwK5XFi76CZX8cbJ4BhTzzA3gU1ZjYZcYW3dwt'' = None
   \<and> onPeerDisconnected NewHost ''QmcZf59bWwK5XFi76CZX8cbJ4BhTzzA3gU1ZjYZcYW3dwt'' = NewHost"
proof -
  let ?P1 = "''QmYyQSo1c1Ym7orWxLYvCrM2EmxFTANf8wXmmE7DWjhx5N''"
  let ?P2 = "''QmcZf59bWwK5XFi76CZX8cbJ4BhTzzA3gU1ZjYZcYW3dwt''"
  let ?h = "onPeerDisconnected (onPeerConnected NewHost ?P1) ?P1"
  let ?e = "\<lparr>ID = ?P1, Name = [], Addrs = [], Connected = False\<rparr>"
  have i: "host_inv ?h"
    by (intro host_inv_onPeerDisconnected host_inv_onPeerConnected host_inv_NewHost)
  have e: "peer_entry ?h ?P1 = Some ?e"
    by (simp add: peer_entry_def onPeerDisconnected_def onPeerConnected_def NewHost_def)
  have n: "map_of (peers NewHost) ?P2 = None"
    by (simp add: NewHost_def)
  from connect_disconnect_idempotent [of ?h ?P1 ?e] i e
  have "peer_entry (onPeerConnected ?h ?P1) ?P1 = Some (?e\<lparr>Connected := True\<rparr>)"
    by blast
  moreover from connect_disconnect_idempotent [of NewHost ?P2] n
  have "onPeerDisconnected NewHost ?P2 = NewHost"
    by blast
  ultimately show ?thesis using i e n by simp
qed

subsection \<open>Name claims over time\<close>

lemma RegisterAgentName_keeps_claim:
  "agentNames h A = Some P \<Longrightarrow> agentNames (snd (RegisterAgentName h n Q)) A = Some P"
  by (auto simp: RegisterAgentName_def split: option.splits)

lemma registry_step_keeps_claim:
  "agentNames h A = Some P \<Longrightarrow> agentNames (registry_step h x) A = Some P"
  by (cases x)
     (simp_all add: RegisterAgentName_keeps_claim onPeerConnected_def onPeerDisconnected_def
        SetLocalName_def split: option.split)

lemma registry_steps_keep_claim:
  "agentNames h A = Some P \<Longrightarrow> agentNames (foldl registry_step h xs) A = Some P"
  by (induction xs arbitrary: h) (simp_all add: registry_step_keeps_claim)

text \<open>
  C10. An identity that owns a name can claim a second, unclaimed name: the claim
  succeeds and both names then belong to it. Whatever sequence of registry operations
  follows, a name that has an owner keeps that owner.
\<close>

theorem one_identity_many_names:
  "(agentNames h A = Some P \<and> agentNames h B = None \<longrightarrow>
      B \<noteq> A
      \<and> fst (RegisterAgentName h B P) = Returns None
      \<and> agentNames (snd (RegisterAgentName h B P)) A = Some P
      \<and> agentNames (snd (RegisterAgentName h B P)) B = Some P)
   \<and> (agentNames h A = Some P \<longrightarrow> agentNames (foldl registry_step h xs) A = Some P)"
proof -
  have "B \<noteq> A
      \<and> fst (RegisterAgentName h B P) = Returns None
      \<and> agentNames (snd (RegisterAgentName h B P)) A = Some P
      \<and> agentNames (snd (RegisterAgentName h B P)) B = Some P"
    if "agentNames h A = Some P" and "agentNames h B = None"
    using that by (auto simp: RegisterAgentName_def)
  with registry_steps_keep_claim [of h A P xs] show ?thesis by blast
qed

theorem one_identity_many_names_witness:
  "agentNames (snd (RegisterAgentName NewHost ''alice''
        ''QmYyQSo1c1Ym7orWxLYvCrM2EmxFTANf8wXmmE7DWjhx5N'')) ''alice''
     = Some ''QmYyQSo1c1Ym7orWxLYvCrM2EmxFTANf8wXmmE7DWjhx5N''
   \<and> agentNames (snd (RegisterAgentName NewHost ''alice''
        ''QmYyQSo1c1Ym7orWxLYvCrM2EmxFTANf8wXmmE7DWjhx5N'')) ''bob'' = None
   \<and> fst (RegisterAgentName
        (snd (RegisterAgentName NewHost ''alice'' ''QmYyQSo1c1Ym7orWxLYvCrM2EmxFTANf8wXmmE7DWjhx5N''))
        ''bob'' ''QmYyQSo1c1Ym7orWxLYvCrM2EmxFTANf8wXmmE7DWjhx5N'') = Returns None
   \<and> agentNames (snd (RegisterAgentName
        (snd (RegisterAgentName NewHost ''alice'' ''QmYyQSo1c1Ym7orWxLYvCrM2EmxFTANf8wXmmE7DWjhx5N''))
        ''bob'' ''QmYyQSo1c1Ym7orWxLYvCrM2EmxFTANf8wXmmE7DWjhx5N'')) ''alice''
     = Some ''QmYyQSo1c1Ym7orWxLYvCrM2EmxFTANf8wXmmE7DWjhx5N''
   \<and> agentNames (foldl registry_step
        (snd (RegisterAgentName NewHost ''alice'' ''QmYyQSo1c1Ym7orWxLYvCrM2EmxFTANf8wXmmE7DWjhx5N''))
        [OpPeerConnected ''QmYyQSo1c1Ym7orWxLYvCrM2EmxFTANf8wXmmE7DWjhx5N'',
         OpPeerDisconnected ''QmYyQSo1c1Ym7orWxLYvCrM2EmxFTANf8wXmmE7DWjhx5N'',
         OpRegisterAgentName ''alice'' ''QmcZf59bWwK5XFi76CZX8cbJ4BhTzzA3gU1ZjYZcYW3dwt'',
         OpRegisterAgentName ''bob'' ''QmcZf59bWwK5XFi76CZX8cbJ4BhTzzA3gU1ZjYZcYW3dwt'']) ''alice''
     = Some ''QmYyQSo1c1Ym7orWxLYvCrM2EmxFTANf8wXmmE7DWjhx5N''"
proof -
  let ?P1 = "''QmYyQSo1c1Ym7orWxLYvCrM2EmxFTANf8wXmmE7DWjhx5N''"
  let ?P2 = "''QmcZf59bWwK5XFi76CZX8cbJ4BhTzzA3gU1ZjYZcYW3dwt''"
  let ?h = "snd (RegisterAgentName NewHost ''alice'' ?P1)"
  let ?xs = "[OpPeerConnected ?P1, OpPeerDisconnected ?P1,
         OpRegisterAgentName ''alice'' ?P2, OpRegisterAgentName ''bob'' ?P2]"
  have a: "agentNames ?h ''alice'' = Some ?P1"
    by (simp add: RegisterAgentName_def NewHost_def)
  have b: "agentNames ?h ''bob'' = None"
    by (simp add: RegisterAgentName_def NewHost_def)
  from one_identity_many_names [of ?h "''alice''" ?P1 "''bob''" ?xs] a b
  show ?thesis by blast
qed

subsection \<open>The conflict error\<close>

text \<open>
  C7, as stated, fails: the conflict error is a message built by \<^verbatim>\<open>fmt.Errorf\<close>, and
  the only trace of the owner in it is the first 12 characters of its text. Two registries
  in which the name has different owners whose texts agree on these characters answer a
  third identity with the same error.
\<close>

theorem name_conflict_error_hides_owner:
  "fst (RegisterAgentName
      (snd (RegisterAgentName NewHost ''alice'' ''QmYyQSo1c1Ym7orWxLYvCrM2EmxFTANf8wXmmE7DWjhx5N''))
      ''alice'' ''QmcZf59bWwK5XFi76CZX8cbJ4BhTzzA3gU1ZjYZcYW3dwt'')
   = fst (RegisterAgentName
      (snd (RegisterAgentName NewHost ''alice'' ''QmYyQSo1c1YmVLkUKxgXDr9RtKMnzNtfGkRvbVkGSmNPDq''))
      ''alice'' ''QmcZf59bWwK5XFi76CZX8cbJ4BhTzzA3gU1ZjYZcYW3dwt'')
   \<and> fst (RegisterAgentName
      (snd (RegisterAgentName NewHost ''alice'' ''QmYyQSo1c1Ym7orWxLYvCrM2EmxFTANf8wXmmE7DWjhx5N''))
      ''alice'' ''QmcZf59bWwK5XFi76CZX8cbJ4BhTzzA3gU1ZjYZcYW3dwt'')
     = Returns (Some (name_conflict_error ''alice'' ''QmYyQSo1c1Ym''))
   \<and> agentNames
      (snd (RegisterAgentName NewHost ''alice'' ''QmYyQSo1c1Ym7orWxLYvCrM2EmxFTANf8wXmmE7DWjhx5N''))
      ''alice'' = Some ''QmYyQSo1c1Ym7orWxLYvCrM2EmxFTANf8wXmmE7DWjhx5N''
   \<and> agentNames
      (snd (RegisterAgentName NewHost ''alice'' ''QmYyQSo1c1YmVLkUKxgXDr9RtKMnzNtfGkRvbVkGSmNPDq''))
      ''alice'' = Some ''QmYyQSo1c1YmVLkUKxgXDr9RtKMnzNtfGkRvbVkGSmNPDq''
   \<and> ''QmYyQSo1c1Ym7orWxLYvCrM2EmxFTANf8wXmmE7DWjhx5N''
       \<noteq> ''QmYyQSo1c1YmVLkUKxgXDr9RtKMnzNtfGkRvbVkGSmNPDq''"
  by (simp add: RegisterAgentName_def NewHost_def)

text \<open>
  C7, amended. When a name owned by one identity is claimed by another, the call returns
  an error whose message names the name and the first 12 characters of the owner's text,
  and the registry is as it was; the whole identity of the owner is what
  \<^verbatim>\<open>IsNameTaken\<close> returns for the name.
\<close>

theorem name_conflict_error_shows_prefix:
  assumes "agentNames h n = Some P1" and "P2 \<noteq> P1" and "12 \<le> length P1"
  shows "RegisterAgentName h n P2 = (Returns (Some (name_conflict_error n (take 12 P1))), h)
    \<and> name_conflict_error n (take 12 P1)
        = ''agent name '' @ [CHR 0x27] @ n @ [CHR 0x27] @ '' is already taken by peer '' @ take 12 P1
    \<and> IsNameTaken h n = (True, P1)"
  using assms by (auto simp: RegisterAgentName_def IsNameTaken_def name_conflict_error_def)

theorem name_conflict_error_shows_prefix_witness:
  "RegisterAgentName
      (snd (RegisterAgentName NewHost ''alice'' ''QmYyQSo1c1Ym7orWxLYvCrM2EmxFTANf8wXmmE7DWjhx5N''))
      ''alice'' ''QmcZf59bWwK5XFi76CZX8cbJ4BhTzzA3gU1ZjYZcYW3dwt''
    = (Returns (Some (name_conflict_error ''alice'' ''QmYyQSo1c1Ym'')),
       snd (RegisterAgentName NewHost ''alice'' ''QmYyQSo1c1Ym7orWxLYvCrM2EmxFTANf8wXmmE7DWjhx5N''))
   \<and> IsNameTaken
      (snd (RegisterAgentName NewHost ''alice'' ''QmYyQSo1c1Ym7orWxLYvCrM2EmxFTANf8wXmmE7DWjhx5N''))
      ''alice'' = (True, ''QmYyQSo1c1Ym7orWxLYvCrM2EmxFTANf8wXmmE7DWjhx5N'')"
proof -
  let ?P1 = "''QmYyQSo1c1Ym7orWxLYvCrM2EmxFTANf8wXmmE7DWjhx5N''"
  let ?P2 = "''QmcZf59bWwK5XFi76CZX8cbJ4BhTzzA3gU1ZjYZcYW3dwt''"
  let ?h = "snd (RegisterAgentName NewHost ''alice'' ?P1)"
  have a: "agentNames ?h ''alice'' = Some ?P1"
    by (simp add: RegisterAgentName_def NewHost_def)
  have b: "?P2 \<noteq> ?P1" by simp
  have c: "12 \<le> length ?P1" by simp
  have t: "take 12 ?P1 = ''QmYyQSo1c1Ym''" by simp
  from name_conflict_error_shows_prefix [OF a b c, unfolded t] show ?thesis by blast
qed

subsection \<open>Connected peers\<close>

lemma connectedPeers_iff:
  assumes "host_inv h"
  shows "p \<in> set (connectedPeers h) \<longleftrightarrow> (\<exists>e. peer_entry h p = Some e \<and> Connected e)"
proof -
  from assms have d: "distinct (map fst (peers h))" by (simp add: host_inv_def)
  have "p \<in> set (connectedPeers h)
      \<longleftrightarrow> (\<exists>a. (p, a) \<in> set (peers h) \<and> Connected (objects h ! a))"
    by (force simp: connectedPeers_def)
  also have "\<dots> \<longleftrightarrow> (\<exists>a. map_of (peers h) p = Some a \<and> Connected (objects h ! a))"
    using d by simp
  also have "\<dots> \<longleftrightarrow> (\<exists>e. peer_entry h p = Some e \<and> Connected e)"
    by (auto simp: peer_entry_def)
  finally show ?thesis .
qed

lemma distinct_connectedPeers: "host_inv h \<Longrightarrow> distinct (connectedPeers h)"
  by (simp add: connectedPeers_def host_inv_def distinct_map_filter)

lemma connected_after_onPeerConnected:
  assumes "host_inv h"
  shows "P \<in> set (connectedPeers (onPeerConnected h P))"
proof -
  have "\<exists>e. peer_entry (onPeerConnected h P) P = Some e \<and> Connected e"
  proof (cases "map_of (peers h) P")
    case None
    with peer_entry_onPeerConnected_new [OF assms None, of P] show ?thesis by simp
  next
    case (Some a)
    then have "peer_entry h P = Some (objects h ! a)"
      by (simp add: peer_entry_def)
    with peer_entry_onPeerConnected_known [OF assms Some, of P] show ?thesis
      by simp
  qed
  with connectedPeers_iff [OF host_inv_onPeerConnected [OF assms]] show ?thesis by blast
qed

lemma not_connected_after_onPeerDisconnected:
  assumes "host_inv h"
  shows "P \<notin> set (connectedPeers (onPeerDisconnected h P))"
  using connectedPeers_iff [OF host_inv_onPeerDisconnected [OF assms], of P P]
    peer_entry_onPeerDisconnected [OF assms, of P P]
  by auto

lemma GetPeers_identities:
  assumes "host_inv h"
  shows "map (\<lambda>a. ID (objects h ! a)) (GetPeers h) = map fst (peers h)"
proof -
  from assms have "\<forall>x \<in> set (peers h). ID (objects h ! snd x) = fst x"
    by (auto simp: host_inv_def list_all_iff)
  then show ?thesis by (simp add: GetPeers_def)
qed

lemma GetPeers_live:
  assumes "host_inv h" and "map_of (peers h) P = Some a"
  shows "a \<in> set (GetPeers h) \<and> \<not> Connected (objects (onPeerDisconnected h P) ! a)"
proof -
  from assms(2) have "(P, a) \<in> set (peers h)" by (rule map_of_SomeD)
  then have "a \<in> set (GetPeers h)" by (force simp: GetPeers_def)
  moreover from inv_lookup(1) [OF assms] assms(2)
  have "\<not> Connected (objects (onPeerDisconnected h P) ! a)"
    by (simp add: onPeerDisconnected_def)
  ultimately show ?thesis by blast
qed

text \<open>
  C4, as stated of \<^verbatim>\<open>GetPeers\<close>, fails: after a peer has connected and disconnected,
  \<^verbatim>\<open>GetPeers\<close> still returns its entry, and the pointer handed out while the peer
  was connected reads the flag as it is now.
\<close>

theorem GetPeers_returns_disconnected_peer:
  "map (\<lambda>a. objects
          (onPeerDisconnected (onPeerConnected NewHost ''QmYyQSo1c1Ym7orWxLYvCrM2EmxFTANf8wXmmE7DWjhx5N'')
             ''QmYyQSo1c1Ym7orWxLYvCrM2EmxFTANf8wXmmE7DWjhx5N'') ! a)
     (GetPeers
        (onPeerDisconnected (onPeerConnected NewHost ''QmYyQSo1c1Ym7orWxLYvCrM2EmxFTANf8wXmmE7DWjhx5N'')
           ''QmYyQSo1c1Ym7orWxLYvCrM2EmxFTANf8wXmmE7DWjhx5N''))
    = [\<lparr>ID = ''QmYyQSo1c1Ym7orWxLYvCrM2EmxFTANf8wXmmE7DWjhx5N'', Name = [], Addrs = [],
         Connected = False\<rparr>]
   \<and> GetPeers (onPeerConnected NewHost ''QmYyQSo1c1Ym7orWxLYvCrM2EmxFTANf8wXmmE7DWjhx5N'') = [0]
   \<and> Connected
       (objects (onPeerConnected NewHost ''QmYyQSo1c1Ym7orWxLYvCrM2EmxFTANf8wXmmE7DWjhx5N'') ! 0)
   \<and> \<not> Connected
       (objects
          (onPeerDisconnected (onPeerConnected NewHost ''QmYyQSo1c1Ym7orWxLYvCrM2EmxFTANf8wXmmE7DWjhx5N'')
             ''QmYyQSo1c1Ym7orWxLYvCrM2EmxFTANf8wXmmE7DWjhx5N'') ! 0)"
  by (simp add: GetPeers_def onPeerDisconnected_def onPeerConnected_def NewHost_def)

text \<open>
  C4, amended. The identities whose flag is set are exactly what the snapshot inside
  \<^verbatim>\<open>Broadcast\<close> collects, each once, as a list of identities that holds no pointer
  into the registry: it contains an identity after its connect and not after its
  disconnect. \<^verbatim>\<open>GetPeers\<close> returns one pointer for every identity in the table,
  whatever its flag, and a later disconnect leaves the pointers as they are and shows
  through them.
\<close>

theorem connected_snapshot_exact:
  assumes "host_inv h"
  shows "(\<forall>p. p \<in> set (connectedPeers h) \<longleftrightarrow> (\<exists>e. peer_entry h p = Some e \<and> Connected e))
    \<and> distinct (connectedPeers h)
    \<and> P \<in> set (connectedPeers (onPeerConnected h P))
    \<and> P \<notin> set (connectedPeers (onPeerDisconnected (onPeerConnected h P) P))
    \<and> map (\<lambda>a. ID (objects h ! a)) (GetPeers h) = map fst (peers h)
    \<and> GetPeers (onPeerDisconnected h P) = GetPeers h
    \<and> (\<forall>a. map_of (peers h) P = Some a \<longrightarrow>
          a \<in> set (GetPeers h) \<and> \<not> Connected (objects (onPeerDisconnected h P) ! a))"
proof -
  have "GetPeers (onPeerDisconnected h P) = GetPeers h"
    by (simp add: GetPeers_def onPeerDisconnected_def split: option.split)
  with connectedPeers_iff [OF assms] distinct_connectedPeers [OF assms]
    connected_after_onPeerConnected [OF assms, of P]
    not_connected_after_onPeerDisconnected [OF host_inv_onPeerConnected [OF assms], of P P]
    GetPeers_identities [OF assms] GetPeers_live [OF assms, of P]
  show ?thesis by blast
qed

theorem connected_snapshot_exact_witness:
  "host_inv (onPeerConnected NewHost ''QmcZf59bWwK5XFi76CZX8cbJ4BhTzzA3gU1ZjYZcYW3dwt'')
   \<and> connectedPeers
       (onPeerConnected (onPeerConnected NewHost ''QmcZf59bWwK5XFi76CZX8cbJ4BhTzzA3gU1ZjYZcYW3dwt'')
          ''QmYyQSo1c1Ym7orWxLYvCrM2EmxFTANf8wXmmE7DWjhx5N'')
     = [''QmcZf59bWwK5XFi76CZX8cbJ4BhTzzA3gU1ZjYZcYW3dwt'',
        ''QmYyQSo1c1Ym7orWxLYvCrM2EmxFTANf8wXmmE7DWjhx5N'']
   \<and> ''QmYyQSo1c1Ym7orWxLYvCrM2EmxFTANf8wXmmE7DWjhx5N''
       \<in> set (connectedPeers
          (onPeerConnected (onPeerConnected NewHost ''QmcZf59bWwK5XFi76CZX8cbJ4BhTzzA3gU1ZjYZcYW3dwt'')
             ''QmYyQSo1c1Ym7orWxLYvCrM2EmxFTANf8wXmmE7DWjhx5N''))
   \<and> ''QmYyQSo1c1Ym7orWxLYvCrM2EmxFTANf8wXmmE7DWjhx5N''
       \<notin> set (connectedPeers
          (onPeerDisconnected
             (onPeerConnected (onPeerConnected NewHost ''QmcZf59bWwK5XFi76CZX8cbJ4BhTzzA3gU1ZjYZcYW3dwt'')
                ''QmYyQSo1c1Ym7orWxLYvCrM2EmxFTANf8wXmmE7DWjhx5N'')
             ''QmYyQSo1c1Ym7orWxLYvCrM2EmxFTANf8wXmmE7DWjhx5N''))
   \<and> map_of (peers (onPeerConnected NewHost ''QmcZf59bWwK5XFi76CZX8cbJ4BhTzzA3gU1ZjYZcYW3dwt''))
        ''QmcZf59bWwK5XFi76CZX8cbJ4BhTzzA3gU1ZjYZcYW3dwt'' = Some 0
   \<and> 0 \<in> set (GetPeers (onPeerConnected NewHost ''QmcZf59bWwK5XFi76CZX8cbJ4BhTzzA3gU1ZjYZcYW3dwt''))"
proof -
  let ?P1 = "''QmYyQSo1c1Ym7orWxLYvCrM2EmxFTANf8wXmmE7DWjhx5N''"
  let ?P2 = "''QmcZf59bWwK5XFi76CZX8cbJ4BhTzzA3gU1ZjYZcYW3dwt''"
  let ?h = "onPeerConnected NewHost ?P2"
  have i: "host_inv ?h"
    by (intro host_inv_onPeerConnected host_inv_NewHost)
  have m: "map_of (peers ?h) ?P2 = Some 0"
    by (simp add: onPeerConnected_def NewHost_def)
  have c: "connectedPeers (onPeerConnected ?h ?P1) = [?P2, ?P1]"
    by (simp add: connectedPeers_def onPeerConnected_def NewHost_def)
  from connected_snapshot_exact [OF i, of ?P1]
  have "?P1 \<in> set (connectedPeers (onPeerConnected ?h ?P1))"
    and "?P1 \<notin> set (connectedPeers (onPeerDisconnected (onPeerConnected ?h ?P1) ?P1))"
    by blast+
  moreover from connected_snapshot_exact [OF i, of ?P2] m
  have "0 \<in> set (GetPeers ?h)"
    by blast
  ultimately show ?thesis using i m c by blast
qed

subsection \<open>Request and response\<close>

text \<open>
  C6. When the stream was opened, the message written, and the read of the response
  yields zero bytes, \<^verbatim>\<open>SendMessage\<close> returns no message and no error.
\<close>

theorem empty_response_is_no_reply:
  assumes "NewStream net peerID ProtocolID = Inr s"
    and "jsonMarshal ext msg = Inr data"
    and "Write s data = None"
    and "ReadAll s data = Inr []"
  shows "SendMessage ext net peerID msg = ((None, None), [data])"
  using assms by (simp add: SendMessage_def)

text \<open>
  The theorems about streams hold for every codec and every transport. The examples
  below fix one of each: a stand-in codec that writes a message as its type and sender
  separated by a space, and a transport whose peers accept the write and close without
  answering.
\<close>

theorem empty_response_is_no_reply_witness:
  "SendMessage
     \<lparr>jsonMarshal = (\<lambda>m. Inr (Type m @ '' '' @ From m)),
      jsonUnmarshal = (\<lambda>data. Inl ''unexpected end of JSON input''),
      unmarshalRegister = (\<lambda>p. Inl ''unexpected end of JSON input''),
      unmarshalAnnounce = (\<lambda>p. None),
      unmarshalChat = (\<lambda>p. Inr ()),
      marshalError = (\<lambda>e. Some e),
      marshalChat = (\<lambda>r. None),
      forwardToOpenAI = (\<lambda>r. Inr ())\<rparr>
     \<lparr>hostID = ''QmcZf59bWwK5XFi76CZX8cbJ4BhTzzA3gU1ZjYZcYW3dwt'',
      NewStream = (\<lambda>peerID protocol. Inr \<lparr>Write = (\<lambda>data. None), ReadAll = (\<lambda>data. Inr [])\<rparr>)\<rparr>
     ''QmYyQSo1c1Ym7orWxLYvCrM2EmxFTANf8wXmmE7DWjhx5N''
     \<lparr>Type = MessageTypeAnnounce, From = ''QmcZf59bWwK5XFi76CZX8cbJ4BhTzzA3gU1ZjYZcYW3dwt'',
      To = [], RequestID = [], Payload = None\<rparr>
   = ((None, None), [''announce QmcZf59bWwK5XFi76CZX8cbJ4BhTzzA3gU1ZjYZcYW3dwt''])"
proof -
  let ?s = "\<lparr>Write = (\<lambda>data::bytes. None :: error option),
      ReadAll = (\<lambda>data::bytes. Inr [] :: error + bytes)\<rparr>"
  let ?net = "\<lparr>hostID = ''QmcZf59bWwK5XFi76CZX8cbJ4BhTzzA3gU1ZjYZcYW3dwt'',
      NewStream = (\<lambda>peerID protocol. Inr ?s)\<rparr>"
  let ?data = "''announce QmcZf59bWwK5XFi76CZX8cbJ4BhTzzA3gU1ZjYZcYW3dwt''"
  have a: "NewStream ?net ''QmYyQSo1c1Ym7orWxLYvCrM2EmxFTANf8wXmmE7DWjhx5N'' ProtocolID = Inr ?s"
    by simp
  have c: "Write ?s ?data = None" by simp
  have d: "ReadAll ?s ?data = Inr []" by simp
  show ?thesis
    by (rule empty_response_is_no_reply [OF a _ c d]) (simp add: MessageTypeAnnounce_def)
qed

subsection \<open>Broadcast\<close>

lemma broadcast_wire_other:
  "peerID \<notin> set (connectedPeers h) \<Longrightarrow> broadcast_wire ext net h msg peerID = []"
  by (auto simp: broadcast_wire_def Broadcast_def filter_map comp_def filter_empty_conv)

lemma filter_eq_singleton:
  "distinct xs \<Longrightarrow> x \<in> set xs \<Longrightarrow> filter (\<lambda>y. y = x) xs = [x]"
  by (induction xs) (auto simp: filter_empty_conv)

lemma broadcast_wire_connected:
  assumes "host_inv h" and "peerID \<in> set (connectedPeers h)"
  shows "broadcast_wire ext net h msg peerID = snd (SendMessage ext net peerID msg)"
proof -
  have "filter (\<lambda>call. fst call = peerID) (snd (Broadcast h msg))
      = map (\<lambda>p. (p, msg)) (filter (\<lambda>p. p = peerID) (connectedPeers h))"
    by (simp add: Broadcast_def filter_map comp_def)
  also have "\<dots> = [(peerID, msg)]"
    using filter_eq_singleton [OF distinct_connectedPeers [OF assms(1)] assms(2)] by simp
  finally show ?thesis
    by (simp add: broadcast_wire_def broadcast_goroutine_def split: prod.split option.split)
qed


text \<open>
  C3. \<^verbatim>\<open>Broadcast\<close> returns no error and starts one send of the message for each
  identity of the snapshot, and only those. What reaches a peer depends on that peer's
  stream alone: a connected peer whose stream opens and takes the write gets the encoded
  message exactly once, whatever \<^verbatim>\<open>NewStream\<close> does for the other peers, and a peer
  whose stream fails to open gets nothing.
\<close>

theorem broadcast_independent_sends:
  assumes "host_inv h" and "jsonMarshal ext msg = Inr data"
  shows "fst (Broadcast h msg) = None
    \<and> map fst (snd (Broadcast h msg)) = connectedPeers h
    \<and> distinct (map fst (snd (Broadcast h msg)))
    \<and> (\<forall>call \<in> set (snd (Broadcast h msg)). snd call = msg)
    \<and> (\<forall>peerID s. peerID \<in> set (connectedPeers h)
          \<and> NewStream net peerID ProtocolID = Inr s \<and> Write s data = None
          \<longrightarrow> broadcast_wire ext net h msg peerID = [data])
    \<and> (\<forall>peerID err. NewStream net peerID ProtocolID = Inl err
          \<longrightarrow> broadcast_wire ext net h msg peerID = [])"
proof -
  have a: "fst (Broadcast h msg) = None"
    and b: "map fst (snd (Broadcast h msg)) = connectedPeers h"
    and c: "\<forall>call \<in> set (snd (Broadcast h msg)). snd call = msg"
    by (auto simp: Broadcast_def comp_def)
  from b distinct_connectedPeers [OF assms(1)]
  have d: "distinct (map fst (snd (Broadcast h msg)))" by simp
  have e: "broadcast_wire ext net h msg peerID = [data]"
    if "peerID \<in> set (connectedPeers h)" and "NewStream net peerID ProtocolID = Inr s"
      and "Write s data = None" for peerID s
  proof -
    from that(2,3) assms(2) have "snd (SendMessage ext net peerID msg) = [data]"
      by (simp add: SendMessage_def split: sum.split)
    with broadcast_wire_connected [OF assms(1) that(1), of ext net msg] show ?thesis
      by simp
  qed
  have f: "broadcast_wire ext net h msg peerID = []"
    if "NewStream net peerID ProtocolID = Inl err" for peerID err
  proof (cases "peerID \<in> set (connectedPeers h)")
    case True
    from that have "snd (SendMessage ext net peerID msg) = []"
      by (simp add: SendMessage_def)
    with broadcast_wire_connected [OF assms(1) True, of ext net msg] show ?thesis
      by simp
  next
    case False
    then show ?thesis by (rule broadcast_wire_other)
  qed
  from a b c d e f show ?thesis by blast
qed

theorem broadcast_independent_sends_witness:
  "host_inv
     (onPeerConnected (onPeerConnected (onPeerConnected NewHost
        ''QmYyQSo1c1Ym7orWxLYvCrM2EmxFTANf8wXmmE7DWjhx5N'')
        ''QmcZf59bWwK5XFi76CZX8cbJ4BhTzzA3gU1ZjYZcYW3dwt'')
        ''QmSoLV4Bbm51jM9C4gDYZQ9Cy3U6aXMJDAbzgu2fzaDs64'')
   \<and> connectedPeers
     (onPeerConnected (onPeerConnected (onPeerConnected NewHost
        ''QmYyQSo1c1Ym7orWxLYvCrM2EmxFTANf8wXmmE7DWjhx5N'')
        ''QmcZf59bWwK5XFi76CZX8cbJ4BhTzzA3gU1ZjYZcYW3dwt'')
        ''QmSoLV4Bbm51jM9C4gDYZQ9Cy3U6aXMJDAbzgu2fzaDs64'')
     = [''QmYyQSo1c1Ym7orWxLYvCrM2EmxFTANf8wXmmE7DWjhx5N'',
        ''QmcZf59bWwK5XFi76CZX8cbJ4BhTzzA3gU1ZjYZcYW3dwt'',
        ''QmSoLV4Bbm51jM9C4gDYZQ9Cy3U6aXMJDAbzgu2fzaDs64'']
   \<and> map (broadcast_wire
       \<lparr>jsonMarshal = (\<lambda>m. Inr (Type m @ '' '' @ From m)),
        jsonUnmarshal = (\<lambda>data. Inl ''unexpected end of JSON input''),
        unmarshalRegister = (\<lambda>p. Inl ''unexpected end of JSON input''),
        unmarshalAnnounce = (\<lambda>p. None),
        unmarshalChat = (\<lambda>p. Inr ()),
        marshalError = (\<lambda>e. Some e),
        marshalChat = (\<lambda>r. None),
        forwardToOpenAI = (\<lambda>r. Inr ())\<rparr>
       \<lparr>hostID = ''QmRelayRelayRelayRelayRelayRelayRelayRelayRela'',
        NewStream = (\<lambda>peerID protocol.
          if peerID = ''QmcZf59bWwK5XFi76CZX8cbJ4BhTzzA3gU1ZjYZcYW3dwt'' then Inl ''dial backoff''
          else Inr \<lparr>Write = (\<lambda>data. None), ReadAll = (\<lambda>data. Inr [])\<rparr>)\<rparr>
       (onPeerConnected (onPeerConnected (onPeerConnected NewHost
          ''QmYyQSo1c1Ym7orWxLYvCrM2EmxFTANf8wXmmE7DWjhx5N'')
          ''QmcZf59bWwK5XFi76CZX8cbJ4BhTzzA3gU1ZjYZcYW3dwt'')
          ''QmSoLV4Bbm51jM9C4gDYZQ9Cy3U6aXMJDAbzgu2fzaDs64'')
       \<lparr>Type = MessageTypePing, From = ''QmRelayRelayRelayRelayRelayRelayRelayRelayRela'',
        To = [], RequestID = [], Payload = None\<rparr>)
       [''QmYyQSo1c1Ym7orWxLYvCrM2EmxFTANf8wXmmE7DWjhx5N'',
        ''QmcZf59bWwK5XFi76CZX8cbJ4BhTzzA3gU1ZjYZcYW3dwt'',
        ''QmSoLV4Bbm51jM9C4gDYZQ9Cy3U6aXMJDAbzgu2fzaDs64'']
     = [[''ping QmRelayRelayRelayRelayRelayRelayRelayRelayRela''], [],
        [''ping QmRelayRelayRelayRelayRelayRelayRelayRelayRela'']]"
proof -
  let ?P1 = "''QmYyQSo1c1Ym7orWxLYvCrM2EmxFTANf8wXmmE7DWjhx5N''"
  let ?P2 = "''QmcZf59bWwK5XFi76CZX8cbJ4BhTzzA3gU1ZjYZcYW3dwt''"
  let ?P3 = "''QmSoLV4Bbm51jM9C4gDYZQ9Cy3U6aXMJDAbzgu2fzaDs64''"
  let ?h = "onPeerConnected (onPeerConnected (onPeerConnected NewHost ?P1) ?P2) ?P3"
  let ?s = "\<lparr>Write = (\<lambda>data::bytes. None :: error option),
      ReadAll = (\<lambda>data::bytes. Inr [] :: error + bytes)\<rparr>"
  let ?net = "\<lparr>hostID = ''QmRelayRelayRelayRelayRelayRelayRelayRelayRela'',
        NewStream = (\<lambda>peerID protocol.
          if peerID = ?P2 then Inl ''dial backoff'' else Inr ?s)\<rparr>"
  let ?ext = "\<lparr>jsonMarshal = (\<lambda>m. Inr (Type m @ '' '' @ From m)),
        jsonUnmarshal = (\<lambda>data. Inl ''unexpected end of JSON input''),
        unmarshalRegister = (\<lambda>p. Inl ''unexpected end of JSON input''),
        unmarshalAnnounce = (\<lambda>p. None),
        unmarshalChat = (\<lambda>p. Inr ()),
        marshalError = (\<lambda>e. Some e),
        marshalChat = (\<lambda>r. None),
        forwardToOpenAI = (\<lambda>r. Inr ())\<rparr> :: (unit, unit) external"
  let ?msg = "\<lparr>Type = MessageTypePing, From = ''QmRelayRelayRelayRelayRelayRelayRelayRelayRela'',
        To = [], RequestID = [], Payload = None\<rparr>"
  let ?data = "''ping QmRelayRelayRelayRelayRelayRelayRelayRelayRela''"
  have i: "host_inv ?h"
    by (intro host_inv_onPeerConnected host_inv_NewHost)
  have m: "jsonMarshal ?ext ?msg = Inr ?data"
    by (simp add: MessageTypePing_def)
  have c: "connectedPeers ?h = [?P1, ?P2, ?P3]"
    by (simp add: connectedPeers_def onPeerConnected_def NewHost_def)
  note th = broadcast_independent_sends [OF i m, of ?net]
  have s1: "NewStream ?net ?P1 ProtocolID = Inr ?s" by simp
  have s2: "NewStream ?net ?P2 ProtocolID = Inl ''dial backoff''" by simp
  have s3: "NewStream ?net ?P3 ProtocolID = Inr ?s" by simp
  have w: "Write ?s ?data = None" by simp
  note ok = th [THEN conjunct2, THEN conjunct2, THEN conjunct2, THEN conjunct2,
    THEN conjunct1, rule_format]
  note failing = th [THEN conjunct2, THEN conjunct2, THEN conjunct2, THEN conjunct2,
    THEN conjunct2, rule_format]
  have w1: "broadcast_wire ?ext ?net ?h ?msg ?P1 = [?data]"
    by (rule ok [of ?P1 ?s]) (simp only: c s1 w, simp)
  have w2: "broadcast_wire ?ext ?net ?h ?msg ?P2 = []"
    by (rule failing [OF s2])
  have w3: "broadcast_wire ?ext ?net ?h ?msg ?P3 = [?data]"
    by (rule ok [of ?P3 ?s]) (simp only: c s3 w, simp)
  from i c w1 w2 w3 show ?thesis by simp
qed




end
